theory Spec2Isabelle
  imports Main "HOL-Library.AList" "HOL-Library.Sublist"
begin

section \<open>JavaScript values\<close>

text \<open>
  The page renderer of panini (\<^verbatim>\<open>lib/render.js\<close>) is embedded as a pure function
  over explicit state.  Strings are lists of 8-bit code units; an exception is a value
  of type \<open>js_error\<close> carried in the left summand of a sum type.
\<close>

datatype js_error = Error (err_name: string) (err_message: string)

text \<open>\<^verbatim>\<open>'' + e\<close> for a thrown error: \<^verbatim>\<open>Error.prototype.toString\<close>.\<close>

definition error_to_string :: "js_error \<Rightarrow> string" where
  "error_to_string e =
     (if err_name e = [] then err_message e
      else if err_message e = [] then err_name e
      else err_name e @ '': '' @ err_message e)"

text \<open>
  Data as YAML front matter and the configuration produce it.  A number is given by the
  string ToString prints for it (\<^verbatim>\<open>42\<close>, \<^verbatim>\<open>0.5\<close>, \<^verbatim>\<open>1e+21\<close>, \<^verbatim>\<open>NaN\<close>): the renderer
  only tests numbers and prints them.  An object is the list of its own properties in
  insertion order, none of them callable.  \<open>JOther\<close> is any other object (a function, a
  date), again given by the string ToString prints for it.
\<close>

datatype jsval =
    JUndefined
  | JNull
  | JBool bool
  | JNum string
  | JStr string
  | JArr "jsval list"
  | JObj "(string \<times> jsval) list"
  | JError js_error
  | JOther string

type_synonym obj = "(string \<times> jsval) list"

text \<open>
  The names of the members of \<^verbatim>\<open>Object.prototype\<close>, which every object written as a
  literal inherits, and what ToString prints for the member of a name: all are built-in
  functions, but \<^verbatim>\<open>constructor\<close>, which is the function \<^verbatim>\<open>Object\<close>, and \<^verbatim>\<open>__proto__\<close>,
  which reads as the prototype itself.
\<close>

definition object_prototype_keys :: "string list" where
  "object_prototype_keys =
     [''constructor'', ''__defineGetter__'', ''__defineSetter__'', ''hasOwnProperty'',
      ''__lookupGetter__'', ''__lookupSetter__'', ''isPrototypeOf'', ''propertyIsEnumerable'',
      ''toString'', ''valueOf'', ''__proto__'', ''toLocaleString'']"

definition member_text :: "string \<Rightarrow> string" where
  "member_text k =
     (if k = ''__proto__'' then ''[object Object]''
      else if k = ''constructor'' then ''function Object() { [native code] }''
      else ''function '' @ k @ ''() { [native code] }'')"

text \<open>
  \<^verbatim>\<open>obj[key]\<close>: the own property; without one, the member of \<^verbatim>\<open>Object.prototype\<close> of
  that name; without one, \<^verbatim>\<open>undefined\<close>.
\<close>

definition get_prop :: "obj \<Rightarrow> string \<Rightarrow> jsval" where
  "get_prop ob k =
     (case map_of ob k of
        Some v \<Rightarrow> v
      | None \<Rightarrow> if k \<in> set object_prototype_keys then JOther (member_text k) else JUndefined)"

text \<open>
  What \<^verbatim>\<open>||\<close>, \<^verbatim>\<open>&&\<close> and \<^verbatim>\<open>!\<close> test.  The numbers that are falsy are the two zeros, both
  printed \<^verbatim>\<open>0\<close>, and \<^verbatim>\<open>NaN\<close>.
\<close>

fun truthy :: "jsval \<Rightarrow> bool" where
  "truthy JUndefined = False"
| "truthy JNull = False"
| "truthy (JBool b) = b"
| "truthy (JNum n) = (n \<noteq> ''0'' \<and> n \<noteq> ''NaN'')"
| "truthy (JStr s) = (s \<noteq> [])"
| "truthy (JArr xs) = True"
| "truthy (JObj ps) = True"
| "truthy (JError e) = True"
| "truthy (JOther s) = True"

text \<open>\<^verbatim>\<open>a || b\<close> on values.\<close>

definition js_or :: "jsval \<Rightarrow> jsval \<Rightarrow> jsval" where
  "js_or a b = (if truthy a then a else b)"

fun join_with :: "string \<Rightarrow> string list \<Rightarrow> string" where
  "join_with sep [] = []"
| "join_with sep [x] = x"
| "join_with sep (x # y # ys) = x @ sep @ join_with sep (y # ys)"

text \<open>
  ToString, as property access and string concatenation apply it.  An array joins its
  elements with commas (\<^verbatim>\<open>null\<close> and \<^verbatim>\<open>undefined\<close> elements as the empty string).  An
  object is printed by the \<^verbatim>\<open>toString\<close> it inherits; when it has a property of that name
  of its own, which is not callable, and \<^verbatim>\<open>valueOf\<close> gives no primitive value either,
  the conversion throws a \<^verbatim>\<open>TypeError\<close>.
\<close>

fun to_string :: "jsval \<Rightarrow> js_error + string"
  and to_strings :: "jsval list \<Rightarrow> js_error + string list" where
  "to_string JUndefined = Inr ''undefined''"
| "to_string JNull = Inr ''null''"
| "to_string (JBool b) = Inr (if b then ''true'' else ''false'')"
| "to_string (JNum n) = Inr n"
| "to_string (JStr s) = Inr s"
| "to_string (JArr xs) =
     (case to_strings xs of Inl e \<Rightarrow> Inl e | Inr ss \<Rightarrow> Inr (join_with '','' ss))"
| "to_string (JObj ps) =
     (if ''toString'' \<in> set (map fst ps)
      then Inl (Error ''TypeError'' ''Cannot convert object to primitive value'')
      else Inr ''[object Object]'')"
| "to_string (JError e) = Inr (error_to_string e)"
| "to_string (JOther s) = Inr s"
| "to_strings [] = Inr []"
| "to_strings (x # xs) =
     (case (if x = JUndefined \<or> x = JNull then Inr [] else to_string x) of
        Inl e \<Rightarrow> Inl e
      | Inr s \<Rightarrow> (case to_strings xs of Inl e \<Rightarrow> Inl e | Inr ss \<Rightarrow> Inr (s # ss)))"

section \<open>Strings\<close>

text \<open>\<^verbatim>\<open>hay.indexOf(needle)\<close>: the first index at which the needle starts, or -1.\<close>

fun indexOf_from :: "string \<Rightarrow> string \<Rightarrow> nat \<Rightarrow> int" where
  "indexOf_from needle [] i = (if needle = [] then int i else - 1)"
| "indexOf_from needle (c # cs) i =
     (if prefix needle (c # cs) then int i else indexOf_from needle cs (Suc i))"

definition indexOf :: "string \<Rightarrow> string \<Rightarrow> int" where
  "indexOf hay needle = indexOf_from needle hay 0"

fun strip_prefix :: "string \<Rightarrow> string \<Rightarrow> string option" where
  "strip_prefix [] s = Some s"
| "strip_prefix (p # ps) [] = None"
| "strip_prefix (p # ps) (c # cs) = (if p = c then strip_prefix ps cs else None)"

text \<open>
  \<^verbatim>\<open>s.replace(pattern, replacement)\<close> with a string pattern: only the first occurrence
  is replaced.  (The replacement used by the renderer is the empty string, which holds
  no \<^verbatim>\<open>$\<close> pattern.)
\<close>

fun replace_first :: "string \<Rightarrow> string \<Rightarrow> string \<Rightarrow> string" where
  "replace_first pat rep [] = (if pat = [] then rep else [])"
| "replace_first pat rep (c # cs) =
     (case strip_prefix pat (c # cs) of
        Some rest \<Rightarrow> rep @ rest
      | None \<Rightarrow> c # replace_first pat rep cs)"

section \<open>Regular expressions\<close>

text \<open>
  The fragment of ECMAScript regular expressions the renderer uses, with the
  backtracking semantics of the language definition: a matcher takes the captures so
  far, the rest of the input and a continuation, and returns the first success in
  priority order.  \<open>Star True r\<close> is the greedy \<^verbatim>\<open>r*\<close>, \<open>Star False r\<close> the lazy
  \<^verbatim>\<open>r*?\<close>.  The flags \<^verbatim>\<open>g\<close> and \<^verbatim>\<open>m\<close> of the source act on \<^verbatim>\<open>exec\<close>/\<^verbatim>\<open>replace\<close> and on
  \<^verbatim>\<open>^\<close>/\<^verbatim>\<open>$\<close> (which no pattern here contains).
\<close>

datatype re =
    Lit string
  | Cls "char \<Rightarrow> bool"
  | Seq re re
  | Alt re re
  | Star bool re
  | Group string re
  | Backref string

type_synonym caps = "(string \<times> string) list"
type_synonym cont = "caps \<Rightarrow> string \<Rightarrow> (caps \<times> string) option"

text \<open>
  The repetition of a matcher.  An iteration that consumes nothing is rejected, as in
  the language definition, so the number of iterations is bounded by the length of the
  input, which is the first argument.
\<close>

fun rep :: "nat \<Rightarrow> (caps \<Rightarrow> string \<Rightarrow> cont \<Rightarrow> (caps \<times> string) option) \<Rightarrow> bool
    \<Rightarrow> caps \<Rightarrow> string \<Rightarrow> cont \<Rightarrow> (caps \<times> string) option" where
  "rep 0 mr greedy c s k = k c s"
| "rep (Suc n) mr greedy c s k =
     (if greedy then
        (case mr c s (\<lambda>c' s'. if length s' < length s then rep n mr greedy c' s' k else None) of
           Some r \<Rightarrow> Some r
         | None \<Rightarrow> k c s)
      else
        (case k c s of
           Some r \<Rightarrow> Some r
         | None \<Rightarrow>
             mr c s (\<lambda>c' s'. if length s' < length s then rep n mr greedy c' s' k else None)))"

fun matcher :: "re \<Rightarrow> caps \<Rightarrow> string \<Rightarrow> cont \<Rightarrow> (caps \<times> string) option" where
  "matcher (Lit l) c s k =
     (case strip_prefix l s of None \<Rightarrow> None | Some s' \<Rightarrow> k c s')"
| "matcher (Cls p) c s k =
     (case s of [] \<Rightarrow> None | x # s' \<Rightarrow> if p x then k c s' else None)"
| "matcher (Seq r1 r2) c s k = matcher r1 c s (\<lambda>c' s'. matcher r2 c' s' k)"
| "matcher (Alt r1 r2) c s k =
     (case matcher r1 c s k of Some r \<Rightarrow> Some r | None \<Rightarrow> matcher r2 c s k)"
| "matcher (Star greedy r) c s k =
     rep (length s) (\<lambda>c' s' k'. matcher r c' s' k') greedy c s k"
| "matcher (Group g r) c s k =
     matcher r c s (\<lambda>c' s'. k (AList.update g (take (length s - length s') s) c') s')"
| "matcher (Backref g) c s k =
     (case map_of c g of
        None \<Rightarrow> k c s
      | Some t \<Rightarrow> (case strip_prefix t s of None \<Rightarrow> None | Some s' \<Rightarrow> k c s'))"

text \<open>\<^verbatim>\<open>r+\<close>, \<^verbatim>\<open>r{0,1}\<close> and a sequence of several parts.\<close>

definition Plus :: "re \<Rightarrow> re" where
  "Plus r = Seq r (Star True r)"

definition Opt :: "re \<Rightarrow> re" where
  "Opt r = Alt r (Lit [])"

fun Seqs :: "re list \<Rightarrow> re" where
  "Seqs [] = Lit []"
| "Seqs [r] = r"
| "Seqs (r # rs) = Seq r (Seqs rs)"

text \<open>A match attempt at the start of \<open>s\<close>: the captures and the input left over.\<close>

definition match_here :: "re \<Rightarrow> string \<Rightarrow> (caps \<times> string) option" where
  "match_here r s = matcher r [] s (\<lambda>c s'. Some (c, s'))"

text \<open>
  The result of \<^verbatim>\<open>regex.exec(s)\<close>: \<open>m_text\<close> is element 0 of the match array,
  \<open>m_groups\<close> its \<^verbatim>\<open>groups\<close> (a group that did not take part is absent) and
  \<open>m_lastIndex\<close> the \<^verbatim>\<open>lastIndex\<close> the regular expression is left with.
\<close>

record rmatch =
  m_index :: nat
  m_text :: string
  m_groups :: caps
  m_lastIndex :: nat

fun exec_from :: "re \<Rightarrow> string \<Rightarrow> nat \<Rightarrow> rmatch option" where
  "exec_from r [] i =
     (case match_here r [] of
        None \<Rightarrow> None
      | Some (c, rest) \<Rightarrow> Some \<lparr>m_index = i, m_text = [], m_groups = c, m_lastIndex = i\<rparr>)"
| "exec_from r (x # xs) i =
     (case match_here r (x # xs) of
        None \<Rightarrow> exec_from r xs (Suc i)
      | Some (c, rest) \<Rightarrow>
          Some \<lparr>m_index = i,
                m_text = take (length (x # xs) - length rest) (x # xs),
                m_groups = c,
                m_lastIndex = i + (length (x # xs) - length rest)\<rparr>)"

text \<open>
  \<^verbatim>\<open>exec\<close> of a global regular expression whose \<^verbatim>\<open>lastIndex\<close> is \<open>i\<close>: the search
  starts at \<open>i\<close>; \<open>None\<close> is the \<^verbatim>\<open>null\<close> result (which resets \<^verbatim>\<open>lastIndex\<close>).
\<close>

definition exec :: "re \<Rightarrow> string \<Rightarrow> nat \<Rightarrow> rmatch option" where
  "exec r s i = (if length s < i then None else exec_from r (drop i s) i)"

text \<open>
  \<^verbatim>\<open>s.replace(regex, '')\<close> with a global regular expression: every match, found from
  left to right without overlap, is removed.  The first argument counts the characters
  still covered by the match before.
\<close>

fun remove_all :: "re \<Rightarrow> nat \<Rightarrow> string \<Rightarrow> string" where
  "remove_all r n [] = []"
| "remove_all r (Suc n) (x # xs) = remove_all r n xs"
| "remove_all r 0 (x # xs) =
     (case match_here r (x # xs) of
        None \<Rightarrow> x # remove_all r 0 xs
      | Some (c, rest) \<Rightarrow>
          (if length rest < length (x # xs)
           then remove_all r (length (x # xs) - length rest - 1) xs
           else x # remove_all r 0 xs))"

text \<open>The character classes of the patterns.\<close>

definition is_space :: "char \<Rightarrow> bool" where
  "is_space ch = (ch \<in> set [CHR 0x09, CHR 0x0A, CHR 0x0B, CHR 0x0C, CHR 0x0D, CHR 0x20, CHR 0xA0])"

definition in_range :: "char \<Rightarrow> char \<Rightarrow> char \<Rightarrow> bool" where
  "in_range lo hi ch = ((of_char lo :: nat) \<le> of_char ch \<and> (of_char ch :: nat) \<le> of_char hi)"

text \<open>\<^verbatim>\<open>[.\s\S]\<close>: a dot, a space character or a character that is not one.\<close>

definition any_char :: "char \<Rightarrow> bool" where
  "any_char ch = (ch = CHR ''.'' \<or> is_space ch \<or> \<not> is_space ch)"

text \<open>\<^verbatim>\<open>[0-9a-zA-Z_-]\<close>\<close>

definition name_char :: "char \<Rightarrow> bool" where
  "name_char ch =
     (in_range CHR ''0'' CHR ''9'' ch \<or> in_range CHR ''a'' CHR ''z'' ch
      \<or> in_range CHR ''A'' CHR ''Z'' ch \<or> ch = CHR ''_'' \<or> ch = CHR ''-'')"

text \<open>\<^verbatim>\<open>["']\<close>\<close>

definition quote_char :: "char \<Rightarrow> bool" where
  "quote_char ch = (ch = CHR 0x22 \<or> ch = CHR 0x27)"

section \<open>The patterns of the two revisions\<close>

text \<open>
  The sources hold two revisions of \<^verbatim>\<open>render\<close>, equal line by line except for the
  block that extracts inline partials: \<^verbatim>\<open>lib/render.js\<close> (lines 50 to 67) and the second
  source file (lines 50 to 74).
\<close>

datatype revision = Lib_render | Part_000

text \<open>
  \<^verbatim>\<open>lib/render.js\<close>, line 51:
  \<^verbatim>\<open>/{{!--(?<comment>[.\s\S]*?)--}}|(?<partial>{{#\*inline[\s]+\"(?<name>layout-[0-9a-zA-Z_-]*)\"}}(?<body>[.\s\S]*?){{\/inline}}[\s]*)/gm\<close>
\<close>

definition inlinePartialAndCommentRegex :: re where
  "inlinePartialAndCommentRegex =
     Alt
       (Seqs [Lit ''{{!--'', Group ''comment'' (Star False (Cls any_char)), Lit ''--}}''])
       (Group ''partial''
          (Seqs [Lit ''{{#*inline'', Plus (Cls is_space), Lit ''\"'',
                 Group ''name'' (Seqs [Lit ''layout-'', Star True (Cls name_char)]),
                 Lit ''\"}}'',
                 Group ''body'' (Star False (Cls any_char)),
                 Lit ''{{/inline}}'', Star True (Cls is_space)]))"

text \<open>
  The second revision, line 51: \<^verbatim>\<open>/{{!--(?<comment>[.\s\S]*?)--}}/gm\<close>
\<close>

definition commentRegex :: re where
  "commentRegex =
     Seqs [Lit ''{{!--'', Group ''comment'' (Star False (Cls any_char)), Lit ''--}}'']"

text \<open>
  The second revision, line 53:
  \<^verbatim>\<open>/{{\~{0,1}#\*inline[\s]+(?<quote>[\"']{1})(?<name>layout-[0-9a-zA-Z_-]*)\k<quote>\s*}}(?<body>[.\s\S]*?){{\/inline\s*\~{0,1}}}[\s]*/gm\<close>
\<close>

definition inlinePartialRegex :: re where
  "inlinePartialRegex =
     Seqs [Lit ''{{'', Opt (Lit ''~''), Lit ''#*inline'', Plus (Cls is_space),
           Group ''quote'' (Cls quote_char),
           Group ''name'' (Seqs [Lit ''layout-'', Star True (Cls name_char)]),
           Backref ''quote'', Star True (Cls is_space), Lit ''}}'',
           Group ''body'' (Star False (Cls any_char)),
           Lit ''{{/inline'', Star True (Cls is_space), Opt (Lit ''~''), Lit ''}}'',
           Star True (Cls is_space)]"

text \<open>\<^verbatim>\<open>match.groups.g\<close>: the text of a named group, \<^verbatim>\<open>undefined\<close> when it took no part.\<close>

definition group_of :: "rmatch \<Rightarrow> string \<Rightarrow> jsval" where
  "group_of mt g = (case map_of (m_groups mt) g of None \<Rightarrow> JUndefined | Some t \<Rightarrow> JStr t)"

text \<open>
  A named group as the key of a property or in a concatenation with a string: its text,
  and \<^verbatim>\<open>undefined\<close> spelled out when it took no part.
\<close>

definition group_text :: "rmatch \<Rightarrow> string \<Rightarrow> string" where
  "group_text mt g = (case map_of (m_groups mt) g of None \<Rightarrow> ''undefined'' | Some t \<Rightarrow> t)"

section \<open>The collaborators and the state\<close>

text \<open>
  A partial of the registry \<^verbatim>\<open>Handlebars.partials\<close> is a compiled template or, when
  registered as a string, its source.  The registry keeps the insertion order of its
  keys, as \<^verbatim>\<open>Object.keys\<close> reads them.
\<close>

datatype 't partial = Source string | Compiled 't

record ('t, 'h) handlebars =
  partials :: "(string \<times> 't partial) list"
  helpers :: "(string \<times> 'h) list"

definition registerPartial ::
    "string \<Rightarrow> 't partial \<Rightarrow> ('t, 'h) handlebars \<Rightarrow> ('t, 'h) handlebars" where
  "registerPartial n p hb = hb\<lparr>partials := AList.update n p (partials hb)\<rparr>"

definition registerHelper ::
    "string \<Rightarrow> 'h \<Rightarrow> ('t, 'h) handlebars \<Rightarrow> ('t, 'h) handlebars" where
  "registerHelper n h hb = hb\<lparr>helpers := AList.update n h (helpers hb)\<rparr>"

record page =
  attributes :: obj
  body :: string

text \<open>
  What \<^verbatim>\<open>render\<close> calls and does not define: the front-matter parser applied to the
  decoded contents without byte order mark (\<open>fm\<close>), the functions of Node's \<^verbatim>\<open>path\<close>,
  \<^verbatim>\<open>processRoot\<close>, the template engine (\<open>compile\<close>, and \<open>invoke\<close> for the call of a
  compiled template, which reads the registry as it is at the time of the call) and
  the two helper factories.  \<open>call_member\<close> is \<^verbatim>\<open>new Buffer.from(m(data))\<close> for a member
  \<^verbatim>\<open>m\<close> of \<^verbatim>\<open>Object.prototype\<close>, given by its name, called as a function without a
  receiver.  Each call that can throw returns a sum.
\<close>

record ('t, 'h) env =
  fm :: "string \<Rightarrow> js_error + page"
  relative :: "string \<Rightarrow> string \<Rightarrow> string"
  dirname :: "string \<Rightarrow> string"
  basename :: "string \<Rightarrow> string \<Rightarrow> string"
  extname :: "string \<Rightarrow> string"
  processRoot :: "string \<Rightarrow> string \<Rightarrow> string"
  compile :: "string \<Rightarrow> js_error + 't"
  invoke :: "'t \<Rightarrow> ('t, 'h) handlebars \<Rightarrow> jsval \<Rightarrow> js_error + string"
  call_member :: "string \<Rightarrow> jsval \<Rightarrow> js_error + string"
  ifPage :: "jsval \<Rightarrow> 'h"
  unlessPage :: "jsval \<Rightarrow> 'h"

record options =
  root :: string
  pageLayouts :: "obj option"

text \<open>
  What \<^verbatim>\<open>this.layouts[layout]\<close> can be when it is not \<^verbatim>\<open>undefined\<close>: a compiled
  template stored under that name, or the member of \<^verbatim>\<open>Object.prototype\<close> of that name.
\<close>

datatype 't layout_template = Template 't | Member string

text \<open>The instance \<^verbatim>\<open>this\<close> that \<^verbatim>\<open>render\<close> is bound to.\<close>

record ('t, 'h) panini =
  options :: options
  layouts :: "(string \<times> 't) list"
  data :: obj
  Handlebars :: "('t, 'h) handlebars"

text \<open>The Vinyl file: its path, its contents and the data a stream plugin attached.\<close>

record vinyl =
  path :: string
  contents :: string
  file_data :: "obj option"

text \<open>
  What the \<^verbatim>\<open>try\<close> block leaves behind: the registry, the variable
  \<^verbatim>\<open>layoutTemplate\<close> (\<open>None\<close> while it is \<^verbatim>\<open>undefined\<close>), and either the rendered page
  or the error thrown.
\<close>

record ('t, 'h) attempt =
  try_handlebars :: "('t, 'h) handlebars"
  try_layoutTemplate :: "'t layout_template option"
  try_result :: "js_error + string"

text \<open>
  The result of \<^verbatim>\<open>render\<close>: the registry and the file as they are left, the error that
  leaves the function (if any) and the files passed to the callback \<^verbatim>\<open>cb\<close>.
\<close>

record ('t, 'h) outcome =
  out_handlebars :: "('t, 'h) handlebars"
  out_file :: vinyl
  out_thrown :: "js_error option"
  out_emitted :: "vinyl list"

section \<open>The deep merge\<close>

text \<open>
  Modelled from the spec: \<^verbatim>\<open>extend\<close> is the external package \<^verbatim>\<open>deepmerge\<close>, which is
  not part of the sources.  The specification gives its contract: a scalar or an array
  of the later layer replaces the earlier value, two mappings are merged key by key,
  recursively, and a key absent from the later layer keeps the earlier value.
\<close>

fun extend :: "jsval \<Rightarrow> jsval \<Rightarrow> jsval"
  and extend_props :: "obj \<Rightarrow> obj \<Rightarrow> obj" where
  "extend (JObj t) (JObj s) = JObj (extend_props t s)"
| "extend t s = s"
| "extend_props t [] = t"
| "extend_props t ((k, v) # s) =
     extend_props
       (AList.update k (case map_of t k of None \<Rightarrow> v | Some tv \<Rightarrow> extend tv v) t) s"

section \<open>The renderer\<close>

text \<open>
  Lines 26 to 29: \<^verbatim>\<open>page.attributes.layout || (this.options.pageLayouts &&
  this.options.pageLayouts[basePath]) || 'default'\<close>.
\<close>

definition resolve_layout :: "obj \<Rightarrow> obj option \<Rightarrow> string \<Rightarrow> jsval" where
  "resolve_layout attrs pl basePath =
     js_or (js_or (get_prop attrs ''layout'')
                  (case pl of None \<Rightarrow> JUndefined | Some ls \<Rightarrow> get_prop ls basePath))
           (JStr ''default'')"

text \<open>Lines 25 to 29: the layout of the page \<open>pg\<close> parsed from the file \<open>f\<close>.\<close>

definition page_layout ::
    "('t, 'h) env \<Rightarrow> ('t, 'h) panini \<Rightarrow> vinyl \<Rightarrow> page \<Rightarrow> jsval" where
  "page_layout E P f pg =
     (let basePath = relative E (root (options P)) (dirname E (path f))
      in resolve_layout (attributes pg) (pageLayouts (options P)) basePath)"

text \<open>
  Line 30: \<^verbatim>\<open>this.layouts[layout]\<close> for the key that ToString makes of \<^verbatim>\<open>layout\<close>;
  \<^verbatim>\<open>this.layouts\<close> is an object written as a literal.
\<close>

definition layout_lookup :: "(string \<times> 't) list \<Rightarrow> string \<Rightarrow> 't layout_template option" where
  "layout_lookup ls k =
     (case map_of ls k of
        Some t \<Rightarrow> Some (Template t)
      | None \<Rightarrow> if k \<in> set object_prototype_keys then Some (Member k) else None)"

text \<open>
  Lines 94 and 100: \<^verbatim>\<open>new Buffer.from(layoutTemplate(data))\<close>.  The member \<^verbatim>\<open>toString\<close>
  of \<^verbatim>\<open>Object.prototype\<close>, called without a receiver, returns \<^verbatim>\<open>[object Undefined]\<close>.
\<close>

definition call_layout ::
    "('t, 'h) env \<Rightarrow> 't layout_template \<Rightarrow> ('t, 'h) handlebars \<Rightarrow> jsval
      \<Rightarrow> js_error + string" where
  "call_layout E layoutTemplate hb d =
     (case layoutTemplate of
        Template t \<Rightarrow> invoke E t hb d
      | Member k \<Rightarrow>
          if k = ''toString'' then Inr ''[object Undefined]'' else call_member E k d)"

text \<open>Line 45: \<^verbatim>\<open>partial.indexOf('layout-') === 0\<close>.\<close>

definition is_layout_partial :: "string \<Rightarrow> bool" where
  "is_layout_partial partial = (indexOf partial ''layout-'' = 0)"

text \<open>Lines 43 to 48: every key of the registry that starts with \<^verbatim>\<open>layout-\<close> is deleted.\<close>

definition purge_layout_partials :: "('t, 'h) handlebars \<Rightarrow> ('t, 'h) handlebars" where
  "purge_layout_partials hb =
     (let inlineLayoutPartialList = filter is_layout_partial (map fst (partials hb))
      in hb\<lparr>partials := fold AList.delete inlineLayoutPartialList (partials hb)\<rparr>)"

section \<open>Every match of the two patterns consumes input\<close>

text \<open>
  The loops of the renderer call \<^verbatim>\<open>exec\<close> until it returns \<^verbatim>\<open>null\<close>.  They terminate
  because a match of either pattern is never empty, so \<^verbatim>\<open>lastIndex\<close> grows with every
  match.  \<open>consuming r\<close> is a syntactic criterion for that.
\<close>

fun consuming :: "re \<Rightarrow> bool" where
  "consuming (Lit l) = (l \<noteq> [])"
| "consuming (Cls p) = True"
| "consuming (Seq r1 r2) = (consuming r1 \<or> consuming r2)"
| "consuming (Alt r1 r2) = (consuming r1 \<and> consuming r2)"
| "consuming (Star g r) = False"
| "consuming (Group g r) = consuming r"
| "consuming (Backref g) = False"

lemma strip_prefix_Some: "strip_prefix p s = Some r \<longleftrightarrow> s = p @ r"
  by (induction p s rule: strip_prefix.induct) auto

lemma rep_suffix:
  assumes mr: "\<And>c s k. mr c s k = Some x \<Longrightarrow> \<exists>c' s'. k c' s' = Some x \<and> length s' \<le> length s"
  shows "rep n mr g c s k = Some x \<Longrightarrow> \<exists>c' s'. k c' s' = Some x \<and> length s' \<le> length s"
proof (induction n arbitrary: c s)
  case 0
  then show ?case by auto
next
  case (Suc n)
  let ?k' = "\<lambda>c' s'. if length s' < length s then rep n mr g c' s' k else None"
  from Suc.prems have "k c s = Some x \<or> mr c s ?k' = Some x"
    by (auto split: if_splits option.splits)
  then show ?case
  proof
    assume "k c s = Some x"
    then show ?thesis by auto
  next
    assume "mr c s ?k' = Some x"
    from mr [OF this] obtain c' s' where a: "?k' c' s' = Some x" "length s' \<le> length s"
      by blast
    then have "rep n mr g c' s' k = Some x"
      by (auto split: if_splits)
    from Suc.IH [OF this] a show ?thesis by force
  qed
qed

text \<open>A matcher calls its continuation on a suffix of its input.\<close>

lemma matcher_suffix:
  "matcher r c s k = Some x \<Longrightarrow> \<exists>c' s'. k c' s' = Some x \<and> length s' \<le> length s"
proof (induction r arbitrary: c s k)
  case (Lit l)
  then obtain s' where "s = l @ s'" "k c s' = Some x"
    by (auto split: option.splits simp: strip_prefix_Some)
  then show ?case by (intro exI [of _ c] exI [of _ s']) simp
next
  case (Cls p)
  then obtain y s' where "s = y # s'" "k c s' = Some x"
    by (auto split: list.splits if_splits)
  then show ?case by (intro exI [of _ c] exI [of _ s']) simp
next
  case (Seq r1 r2)
  from Seq.prems have "matcher r1 c s (\<lambda>c' s'. matcher r2 c' s' k) = Some x"
    by simp
  from Seq.IH(1) [OF this] obtain c1 s1
    where a: "matcher r2 c1 s1 k = Some x" "length s1 \<le> length s"
    by blast
  from Seq.IH(2) [OF a(1)] a(2) show ?case by force
next
  case (Alt r1 r2)
  then show ?case by (auto split: option.splits)
next
  case (Star g r)
  from Star.prems
  have a: "rep (length s) (\<lambda>c' s' k'. matcher r c' s' k') g c s k = Some x"
    by simp
  have "\<And>c s k. (\<lambda>c' s' k'. matcher r c' s' k') c s k = Some x
      \<Longrightarrow> \<exists>c' s'. k c' s' = Some x \<and> length s' \<le> length s"
    using Star.IH by simp
  from rep_suffix [OF this a] show ?case .
next
  case (Group g r)
  from Group.prems
  have "matcher r c s (\<lambda>c' s'. k (AList.update g (take (length s - length s') s) c') s') = Some x"
    by simp
  from Group.IH [OF this] show ?case by blast
next
  case (Backref g)
  then obtain t s' where "s = t @ s'" "k c s' = Some x"
    by (auto split: option.splits simp: strip_prefix_Some)
  then show ?case by (intro exI [of _ c] exI [of _ s']) simp
qed

lemma matcher_consuming:
  "consuming r \<Longrightarrow> matcher r c s k = Some x
    \<Longrightarrow> \<exists>c' s'. k c' s' = Some x \<and> length s' < length s"
proof (induction r arbitrary: c s k)
  case (Lit l)
  then obtain s' where "s = l @ s'" "k c s' = Some x" "l \<noteq> []"
    by (auto split: option.splits simp: strip_prefix_Some)
  then show ?case by (intro exI [of _ c] exI [of _ s']) simp
next
  case (Cls p)
  then obtain y s' where "s = y # s'" "k c s' = Some x"
    by (auto split: list.splits if_splits)
  then show ?case by (intro exI [of _ c] exI [of _ s']) simp
next
  case (Seq r1 r2)
  from Seq.prems have m: "matcher r1 c s (\<lambda>c' s'. matcher r2 c' s' k) = Some x"
    by simp
  show ?case
  proof (cases "consuming r1")
    case True
    from Seq.IH(1) [OF True m] obtain c1 s1
      where a: "matcher r2 c1 s1 k = Some x" "length s1 < length s"
      by blast
    from matcher_suffix [OF a(1)] a(2) show ?thesis by force
  next
    case False
    with Seq.prems have c2: "consuming r2" by simp
    from matcher_suffix [OF m] obtain c1 s1
      where a: "matcher r2 c1 s1 k = Some x" "length s1 \<le> length s"
      by blast
    from Seq.IH(2) [OF c2 a(1)] a(2) show ?thesis by force
  qed
next
  case (Alt r1 r2)
  then show ?case by (auto split: option.splits)
next
  case (Group g r)
  from Group.prems
  have "matcher r c s (\<lambda>c' s'. k (AList.update g (take (length s - length s') s) c') s') = Some x"
    by simp
  from Group.IH [OF _ this] Group.prems(1) show ?case by auto
qed simp_all

lemma match_here_consuming:
  "consuming r \<Longrightarrow> match_here r s = Some (c, rest) \<Longrightarrow> length rest < length s"
  unfolding match_here_def by (drule (1) matcher_consuming) auto

lemma exec_from_progress:
  "consuming r \<Longrightarrow> exec_from r xs i = Some mt
    \<Longrightarrow> i < m_lastIndex mt \<and> m_lastIndex mt \<le> i + length xs"
proof (induction xs arbitrary: i)
  case Nil
  then show ?case by (auto split: option.splits dest: match_here_consuming)
next
  case (Cons x xs)
  show ?case
  proof (cases "match_here r (x # xs)")
    case None
    with Cons.prems have "exec_from r xs (Suc i) = Some mt" by simp
    from Cons.IH [OF Cons.prems(1) this] show ?thesis by simp
  next
    case (Some a)
    obtain c rest where a: "a = (c, rest)" by (cases a)
    from match_here_consuming [OF Cons.prems(1) Some [unfolded a]]
    have "length rest < length (x # xs)" .
    with Cons.prems Some a show ?thesis by auto
  qed
qed

lemma exec_progress:
  "consuming r \<Longrightarrow> exec r s i = Some mt \<Longrightarrow> i < m_lastIndex mt \<and> m_lastIndex mt \<le> length s"
  unfolding exec_def by (auto split: if_splits dest: exec_from_progress)

lemma consuming_inlinePartialAndCommentRegex: "consuming inlinePartialAndCommentRegex"
  by (simp add: inlinePartialAndCommentRegex_def Plus_def Opt_def)

lemma consuming_inlinePartialRegex: "consuming inlinePartialRegex"
  by (simp add: inlinePartialRegex_def Plus_def Opt_def)

section \<open>Inline partials\<close>

text \<open>
  \<^verbatim>\<open>lib/render.js\<close>, lines 55 to 64.  The arguments are \<^verbatim>\<open>page.body\<close>, the
  \<^verbatim>\<open>lastIndex\<close> of the pattern, the registry and \<^verbatim>\<open>bodyText\<close>.  A match of the comment
  alternative leaves \<^verbatim>\<open>groups.partial\<close> undefined and changes nothing.  When \<open>compile\<close>
  throws, the loop is left with the registry as it is by then.
\<close>

function inline_loop_lib ::
    "('t, 'h) env \<Rightarrow> string \<Rightarrow> nat \<Rightarrow> ('t, 'h) handlebars \<Rightarrow> string
      \<Rightarrow> ('t, 'h) handlebars \<times> (js_error + string)" where
  "inline_loop_lib E pageBody lastIndex hb bodyText =
     (case exec inlinePartialAndCommentRegex pageBody lastIndex of
        None \<Rightarrow> (hb, Inr bodyText)
      | Some inlinePartialMatch \<Rightarrow>
          (if group_of inlinePartialMatch ''partial'' = JUndefined
           then inline_loop_lib E pageBody (m_lastIndex inlinePartialMatch) hb bodyText
           else
             (case compile E (group_text inlinePartialMatch ''body'' @ [CHR 0x0A]) of
                Inl e \<Rightarrow> (hb, Inl e)
              | Inr t \<Rightarrow>
                  inline_loop_lib E pageBody (m_lastIndex inlinePartialMatch)
                    (registerPartial (group_text inlinePartialMatch ''name'')
                       (Compiled t) hb)
                    (replace_first (group_text inlinePartialMatch ''partial'') []
                       bodyText))))"
  by pat_completeness auto
termination
  by (relation "measure (\<lambda>(E, pageBody, lastIndex, hb, bodyText). length pageBody + 1 - lastIndex)")
    (auto dest: exec_progress [OF consuming_inlinePartialAndCommentRegex])

text \<open>
  The second revision, lines 60 to 70: the pattern runs over the body without its
  comments, and the text of each match is replaced in the body as it was parsed.
\<close>

function inline_loop_part ::
    "('t, 'h) env \<Rightarrow> string \<Rightarrow> nat \<Rightarrow> ('t, 'h) handlebars \<Rightarrow> string
      \<Rightarrow> ('t, 'h) handlebars \<times> (js_error + string)" where
  "inline_loop_part E pageBody lastIndex hb bodyText =
     (case exec inlinePartialRegex (remove_all commentRegex 0 pageBody) lastIndex of
        None \<Rightarrow> (hb, Inr bodyText)
      | Some inlinePartialMatch \<Rightarrow>
          (case compile E (group_text inlinePartialMatch ''body'' @ [CHR 0x0A]) of
             Inl e \<Rightarrow> (hb, Inl e)
           | Inr t \<Rightarrow>
               inline_loop_part E pageBody (m_lastIndex inlinePartialMatch)
                 (registerPartial (group_text inlinePartialMatch ''name'')
                    (Compiled t) hb)
                 (replace_first (m_text inlinePartialMatch) [] bodyText)))"
  by pat_completeness auto
termination
  by (relation "measure (\<lambda>(E, pageBody, lastIndex, hb, bodyText).
        length (remove_all commentRegex 0 pageBody) + 1 - lastIndex)")
    (auto dest: exec_progress [OF consuming_inlinePartialRegex])

declare inline_loop_lib.simps [simp del] inline_loop_part.simps [simp del]

text \<open>\<^verbatim>\<open>i !== -1\<close> for the result of \<^verbatim>\<open>indexOf\<close>.\<close>

definition found :: "int \<Rightarrow> bool" where
  "found i = (i \<noteq> - 1)"

text \<open>
  Line 50 and the block it guards; the result is the registry and the new
  \<^verbatim>\<open>page.body\<close>, or the error thrown.
\<close>

definition extract_inline_partials ::
    "revision \<Rightarrow> ('t, 'h) env \<Rightarrow> ('t, 'h) handlebars \<Rightarrow> string
      \<Rightarrow> ('t, 'h) handlebars \<times> (js_error + string)" where
  "extract_inline_partials v E hb pageBody =
     (if found (indexOf pageBody ''{{#*inline'') \<or> found (indexOf pageBody ''{{~#*inline'')
      then (case v of
              Lib_render \<Rightarrow> inline_loop_lib E pageBody 0 hb pageBody
            | Part_000 \<Rightarrow> inline_loop_part E pageBody 0 hb pageBody)
      else (hb, Inr pageBody))"



section \<open>Rendering a page\<close>

text \<open>Lines 72 to 86: the data the layout is rendered with.\<close>

definition page_data ::
    "('t, 'h) env \<Rightarrow> ('t, 'h) panini \<Rightarrow> vinyl \<Rightarrow> page \<Rightarrow> jsval \<Rightarrow> jsval" where
  "page_data E P f pg layout =
     (let pageData = extend (JObj []) (JObj (data P));
          pageData = (case file_data f of
                        Some d \<Rightarrow> extend pageData (JObj d)
                      | None \<Rightarrow> pageData);
          pageData = extend pageData (JObj (attributes pg));
          pageData = extend pageData
            (JObj [(''page'', JStr (basename E (path f) (extname E (path f)))),
                   (''layout'', layout),
                   (''root'', JStr (processRoot E (path f) (root (options P))))])
      in pageData)"

text \<open>\<^verbatim>\<open>value.key\<close> on a value that may or may not be an object with that property.\<close>

definition member_of :: "jsval \<Rightarrow> string \<Rightarrow> jsval" where
  "member_of v k = (case v of JObj ps \<Rightarrow> get_prop ps k | _ \<Rightarrow> JUndefined)"

text \<open>
  The composition as the specification words it:
  \<^verbatim>\<open>{} <- globalData <- upstreamData <- frontMatterAttributes <- {page, layout, root}\<close>.
\<close>

definition compose :: "obj \<Rightarrow> obj \<Rightarrow> obj \<Rightarrow> string \<Rightarrow> jsval \<Rightarrow> string \<Rightarrow> jsval" where
  "compose globalData upstreamData frontMatterAttributes pageName layoutName rootPrefix =
     extend
       (extend (extend (extend (JObj []) (JObj globalData)) (JObj upstreamData))
          (JObj frontMatterAttributes))
       (JObj [(''page'', JStr pageName), (''layout'', layoutName), (''root'', JStr rootPrefix)])"

text \<open>The partial registered as \<^verbatim>\<open>body\<close> by the handler (line 99).\<close>

definition error_partial :: string where
  "error_partial =
     ''Panini: template could not be parsed <br> '' @ [CHR 0x0A] @ '' <pre>{{error}}</pre>''"

text \<open>The document written by the handler when there is no layout template (line 105).\<close>

definition raw_error_page :: "js_error \<Rightarrow> string" where
  "raw_error_page e =
     ''<!DOCTYPE html><html><head><title>Panini error</title></head><body><pre>''
       @ error_to_string e @ ''</pre></body></html>''"

text \<open>The error thrown by the handler (line 108).\<close>

definition rendering_error :: "js_error \<Rightarrow> js_error" where
  "rendering_error e =
     Error ''Error'' (''Panini: rendering error occured.'' @ [CHR 0x0A] @ error_to_string e)"

text \<open>
  The errors of lines 34 and 37; \<open>name\<close> is the string ToString makes of \<^verbatim>\<open>layout\<close>,
  which line 30 has computed without throwing by then.
\<close>

definition missing_layout_error :: "jsval \<Rightarrow> string \<Rightarrow> js_error" where
  "missing_layout_error layout name =
     (if layout = JStr ''default''
      then Error ''Error'' ''Panini error: you must have a layout named \"default\".''
      else Error ''Error'' (''Panini error: no layout named \"'' @ name @ ''\" exists.''))"

text \<open>
  Lines 19 to 95, statement by statement.  The conversion of \<^verbatim>\<open>layout\<close> to a key in
  line 30 can throw, before \<^verbatim>\<open>layoutTemplate\<close> is assigned.
\<close>

definition render_try ::
    "revision \<Rightarrow> ('t, 'h) env \<Rightarrow> ('t, 'h) panini \<Rightarrow> vinyl \<Rightarrow> ('t, 'h) attempt" where
  "render_try v E P f =
     (case fm E (contents f) of
        Inl e \<Rightarrow>
          \<lparr>try_handlebars = Handlebars P, try_layoutTemplate = None, try_result = Inl e\<rparr>
      | Inr pg \<Rightarrow>
          (let layout = page_layout E P f pg
           in case to_string layout of
                Inl e \<Rightarrow>
                  \<lparr>try_handlebars = Handlebars P, try_layoutTemplate = None,
                   try_result = Inl e\<rparr>
              | Inr name \<Rightarrow>
                  (case layout_lookup (layouts P) name of
                     None \<Rightarrow>
                       \<lparr>try_handlebars = Handlebars P, try_layoutTemplate = None,
                        try_result = Inl (missing_layout_error layout name)\<rparr>
                   | Some layoutTemplate \<Rightarrow>
                       (case extract_inline_partials v E
                               (purge_layout_partials (Handlebars P)) (body pg) of
                          (hb, Inl e) \<Rightarrow>
                            \<lparr>try_handlebars = hb, try_layoutTemplate = Some layoutTemplate,
                             try_result = Inl e\<rparr>
                        | (hb, Inr pageBody) \<Rightarrow>
                            (case compile E (pageBody @ [CHR 0x0A]) of
                               Inl e \<Rightarrow>
                                 \<lparr>try_handlebars = hb,
                                  try_layoutTemplate = Some layoutTemplate,
                                  try_result = Inl e\<rparr>
                             | Inr pageTemplate \<Rightarrow>
                                 (let pageData = page_data E P f pg layout;
                                      hb = registerHelper ''ifpage''
                                             (ifPage E (member_of pageData ''page'')) hb;
                                      hb = registerHelper ''unlesspage''
                                             (unlessPage E (member_of pageData ''page'')) hb;
                                      hb = registerPartial ''body'' (Compiled pageTemplate) hb
                                  in \<lparr>try_handlebars = hb,
                                      try_layoutTemplate = Some layoutTemplate,
                                      try_result = call_layout E layoutTemplate hb pageData\<rparr>))))))"

text \<open>
  Lines 96 to 113: the handler and the \<^verbatim>\<open>finally\<close> block.  When the call of the layout
  template in the handler throws, the assignment to \<^verbatim>\<open>file.contents\<close> and the
  \<^verbatim>\<open>throw\<close> after it are not reached and that error leaves the function.
\<close>

definition render ::
    "revision \<Rightarrow> ('t, 'h) env \<Rightarrow> ('t, 'h) panini \<Rightarrow> vinyl \<Rightarrow> ('t, 'h) outcome" where
  "render v E P f =
     (let a = render_try v E P f;
          (hb, f', thrown) =
            (case try_result a of
               Inr html \<Rightarrow> (try_handlebars a, f\<lparr>contents := html\<rparr>, None)
             | Inl e \<Rightarrow>
                 (case try_layoutTemplate a of
                    Some layoutTemplate \<Rightarrow>
                      (let hb = registerPartial ''body'' (Source error_partial)
                                  (try_handlebars a)
                       in case call_layout E layoutTemplate hb (JObj [(''error'', JError e)]) of
                            Inr html \<Rightarrow>
                              (hb, f\<lparr>contents := html\<rparr>, Some (rendering_error e))
                          | Inl e' \<Rightarrow> (hb, f, Some e'))
                  | None \<Rightarrow>
                      (try_handlebars a, f\<lparr>contents := raw_error_page e\<rparr>,
                       Some (rendering_error e))))
      in \<lparr>out_handlebars = hb, out_file = f', out_thrown = thrown, out_emitted = [f']\<rparr>)"

section \<open>A small engine for the examples\<close>

text \<open>
  The theorems below hold for every collaborator.  To run the renderer on concrete
  documents, here is a small template engine: a template is a list of literal texts and
  of includes of a partial (as \<^verbatim>\<open>{{> name}}\<close> in Handlebars); rendering an include
  whose partial is not registered throws.  The engine has no expressions: a source that
  holds \<^verbatim>\<open>{{\<close> does not compile.  The parser reads a document as its body, with no
  attributes, and calling a member of \<^verbatim>\<open>Object.prototype\<close> throws.
\<close>

datatype piece = Text string | Include string

fun plain :: "piece list \<Rightarrow> string" where
  "plain [] = []"
| "plain (Text s # ps) = s @ plain ps"
| "plain (Include n # ps) = plain ps"

fun run_pieces :: "(piece list, jsval) handlebars \<Rightarrow> piece list \<Rightarrow> js_error + string" where
  "run_pieces hb [] = Inr []"
| "run_pieces hb (Text s # ps) =
     (case run_pieces hb ps of Inl e \<Rightarrow> Inl e | Inr rest \<Rightarrow> Inr (s @ rest))"
| "run_pieces hb (Include n # ps) =
     (case map_of (partials hb) n of
        None \<Rightarrow> Inl (Error ''Error'' (''The partial '' @ n @ '' could not be found''))
      | Some p \<Rightarrow>
          (case run_pieces hb ps of
             Inl e \<Rightarrow> Inl e
           | Inr rest \<Rightarrow> Inr ((case p of Source s \<Rightarrow> s | Compiled t \<Rightarrow> plain t) @ rest)))"

definition example_env :: "(piece list, jsval) env" where
  "example_env =
     \<lparr>fm = (\<lambda>s. Inr \<lparr>attributes = [], body = s\<rparr>),
      relative = (\<lambda>from to. []),
      dirname = (\<lambda>p. []),
      basename = (\<lambda>p ext. take (length p - length ext) p),
      extname = (\<lambda>p. ''.html''),
      processRoot = (\<lambda>p r. []),
      compile = (\<lambda>s. if sublist ''{{'' s then Inl (Error ''Error'' ''Parse error'')
                       else Inr [Text s]),
      invoke = (\<lambda>t hb d. run_pieces hb t),
      call_member = (\<lambda>k d. Inl (Error ''TypeError'' ''Cannot convert undefined or null to object'')),
      ifPage = (\<lambda>pageName. pageName),
      unlessPage = (\<lambda>pageName. pageName)\<rparr>"

definition example_panini ::
    "(string \<times> piece list) list \<Rightarrow> (string \<times> piece list partial) list
      \<Rightarrow> (piece list, jsval) panini" where
  "example_panini ls ps =
     \<lparr>options = \<lparr>root = ''src'', pageLayouts = None\<rparr>,
      layouts = ls,
      data = [],
      Handlebars = \<lparr>partials = ps, helpers = []\<rparr>\<rparr>"

definition example_file :: "string \<Rightarrow> vinyl" where
  "example_file s = \<lparr>path = ''index.html'', contents = s, file_data = None\<rparr>"




definition broken_panini :: "(piece list, jsval) panini" where
  "broken_panini = example_panini [(''default'', [Include ''body'', Include ''layout-nav''])] []"

definition header_panini :: "(piece list, jsval) panini" where
  "header_panini = example_panini [(''default'', [Text ''<header>'', Include ''body''])] []"

definition empty_registry :: "(piece list, jsval) handlebars" where
  "empty_registry = \<lparr>partials = [], helpers = []\<rparr>"




section \<open>Which layout a page gets\<close>







section \<open>The data of a page\<close>

lemma extend_props_other: "k \<notin> fst ` set s \<Longrightarrow> map_of (extend_props t s) k = map_of t k"
  by (induction s arbitrary: t) (auto simp: update_conv')

lemma extend_scalar: "\<not> (\<exists>ps. s = JObj ps) \<Longrightarrow> extend t s = s"
  by (cases t; cases s) auto

text \<open>
  Claim C3.  The data \<^verbatim>\<open>render\<close> builds are the composition of the specification, in
  that order, where a file without \<^verbatim>\<open>data\<close> contributes the empty mapping; and their
  \<^verbatim>\<open>page\<close> is the base name of the file without its extension, whatever the global
  data, the data of the file and the front matter hold under that key.
\<close>

theorem page_data_layers:
  "page_data E P f pg layout =
     compose (data P) (case file_data f of None \<Rightarrow> [] | Some d \<Rightarrow> d) (attributes pg)
       (basename E (path f) (extname E (path f))) layout
       (processRoot E (path f) (root (options P)))
   \<and> member_of (page_data E P f pg layout) ''page''
       = JStr (basename E (path f) (extname E (path f)))"
  by (simp add: page_data_def compose_def member_of_def get_prop_def extend_props_other
      update_conv' extend_scalar split: option.splits)

section \<open>Pages without inline partials\<close>

lemma indexOf_from_found: "indexOf_from needle hay i \<noteq> - 1 \<longleftrightarrow> sublist needle hay"
proof (induction hay arbitrary: i)
  case Nil
  then show ?case by simp
next
  case (Cons c cs)
  then show ?case by (auto simp: sublist_Cons_right)
qed

text \<open>
  Claim C8.  When neither \<^verbatim>\<open>{{#*inline\<close> nor \<^verbatim>\<open>{{~#*inline\<close> occurs in the body, the
  extraction returns the registry and the body as they are, in both revisions: the
  patterns are not run.
\<close>

theorem no_declaration_no_change:
  "\<not> sublist ''{{#*inline'' pageBody \<Longrightarrow> \<not> sublist ''{{~#*inline'' pageBody
    \<Longrightarrow> extract_inline_partials v E hb pageBody = (hb, Inr pageBody)"
  by (simp add: extract_inline_partials_def found_def indexOf_def indexOf_from_found)

theorem no_declaration_no_change_witness:
  "\<not> sublist ''{{#*inline'' ''<p>{{title}}</p>'' \<and> \<not> sublist ''{{~#*inline'' ''<p>{{title}}</p>''
   \<and> extract_inline_partials Part_000 example_env \<lparr>partials = [(''layout-nav'', Source ''Hi'')],
         helpers = []\<rparr> ''<p>{{title}}</p>''
     = (\<lparr>partials = [(''layout-nav'', Source ''Hi'')], helpers = []\<rparr>, Inr ''<p>{{title}}</p>'')"
proof -
  have a: "\<not> sublist ''{{#*inline'' ''<p>{{title}}</p>''"
    by code_simp
  have b: "\<not> sublist ''{{~#*inline'' ''<p>{{title}}</p>''"
    by code_simp
  from a b no_declaration_no_change [OF a b, of Part_000 example_env
      "\<lparr>partials = [(''layout-nav'', Source ''Hi'')], helpers = []\<rparr>"]
  show ?thesis by simp
qed

section \<open>The transient partials\<close>






lemma page_layout_Handlebars [simp]:
  "page_layout E (P\<lparr>Handlebars := hb\<rparr>) f pg = page_layout E P f pg"
  by (simp add: page_layout_def)

lemma page_data_Handlebars [simp]:
  "page_data E (P\<lparr>Handlebars := hb\<rparr>) f pg l = page_data E P f pg l"
  by (simp add: page_data_def)
















section \<open>Failures\<close>

text \<open>
  Claim C1.  The handler chooses by \<^verbatim>\<open>layoutTemplate\<close>.  A page whose layout is
  \<^verbatim>\<open>"default"\<close> when no layout has that name gets the raw error document, and a page
  whose body does not compile gets its layout with the error partial as \<^verbatim>\<open>body\<close>, the
  header of the layout included, as the claim says.  But the call of the layout
  template in the handler (line 100) is not guarded: for a layout that includes a
  partial nobody registered, the layout template was found, the render fails, the call
  in the handler throws again, and the contents of the file stay the source of the
  page, in both revisions.  The output is then neither the layout with the error
  fragment nor the raw error document.
\<close>

theorem tier1_rerender_leaves_source:
  "contents (out_file (render Lib_render example_env (example_panini [] [])
       (example_file ''<p>Hello</p>'')))
     = raw_error_page (Error ''Error'' ''Panini error: you must have a layout named \"default\".'')
   \<and> contents (out_file (render Lib_render example_env header_panini (example_file ''A{{B'')))
     = ''<header>'' @ error_partial
   \<and> try_layoutTemplate (render_try Lib_render example_env broken_panini
         (example_file ''<p>Hello</p>''))
     = Some (Template [Include ''body'', Include ''layout-nav''])
   \<and> try_result (render_try Lib_render example_env broken_panini (example_file ''<p>Hello</p>''))
     = Inl (Error ''Error'' ''The partial layout-nav could not be found'')
   \<and> call_layout example_env (Template [Include ''body'', Include ''layout-nav''])
       (registerPartial ''body'' (Source error_partial)
          (try_handlebars (render_try Lib_render example_env broken_panini
             (example_file ''<p>Hello</p>''))))
       (JObj [(''error'', JError (Error ''Error'' ''The partial layout-nav could not be found''))])
     = Inl (Error ''Error'' ''The partial layout-nav could not be found'')
   \<and> contents (out_file (render Lib_render example_env broken_panini
         (example_file ''<p>Hello</p>'')))
     = ''<p>Hello</p>''
   \<and> contents (out_file (render Part_000 example_env broken_panini
         (example_file ''<p>Hello</p>'')))
     = ''<p>Hello</p>''"
  by code_simp

text \<open>
  Claim C6.  The file is passed to the callback once on every path, and a failure
  whose handler runs to its end leaves the error content in the file and throws
  \<^verbatim>\<open>Panini: rendering error occured.\<close> followed by the text of the error, as the claim
  says.  But when the call of the layout template in the handler (line 100) throws, the
  assignment to \<^verbatim>\<open>file.contents\<close> and the \<^verbatim>\<open>throw\<close> of line 108 are not reached: for a
  page whose body does not compile and a layout that includes a partial nobody
  registered, the file is passed on with its source as contents, and the error that
  reaches the caller is the second one, which does not hold the message of the first.
\<close>

theorem rerender_failure_loses_error:
  "out_thrown (render Part_000 example_env header_panini (example_file ''A{{B''))
     = Some (rendering_error (Error ''Error'' ''Parse error''))
   \<and> out_emitted (render Part_000 example_env header_panini (example_file ''A{{B''))
     = [\<lparr>path = ''index.html'', contents = ''<header>'' @ error_partial, file_data = None\<rparr>]
   \<and> try_result (render_try Part_000 example_env broken_panini (example_file ''A{{B''))
     = Inl (Error ''Error'' ''Parse error'')
   \<and> out_emitted (render Part_000 example_env broken_panini (example_file ''A{{B''))
     = [\<lparr>path = ''index.html'', contents = ''A{{B'', file_data = None\<rparr>]
   \<and> out_thrown (render Part_000 example_env broken_panini (example_file ''A{{B''))
     = Some (Error ''Error'' ''The partial layout-nav could not be found'')
   \<and> \<not> sublist ''Parse error'' ''The partial layout-nav could not be found''
   \<and> out_emitted (render Lib_render example_env broken_panini (example_file ''A{{B''))
     = [\<lparr>path = ''index.html'', contents = ''A{{B'', file_data = None\<rparr>]
   \<and> out_thrown (render Lib_render example_env broken_panini (example_file ''A{{B''))
     = Some (Error ''Error'' ''The partial layout-nav could not be found'')"
  by code_simp

section \<open>Declarations the extraction gets wrong\<close>

text \<open>
  Claim C4.  \<^verbatim>\<open>lib/render.js\<close> tests the body for \<^verbatim>\<open>{{~#*inline\<close> in line 50, but its
  pattern accepts neither the trim marker nor a name in single quotes: such a
  declaration is not registered and stays in the body.  The second revision registers
  and removes both.  A declaration whose name is opened with one quote character and
  closed with the other is left alone by both.
\<close>

theorem single_quotes_and_trim_markers:
  "extract_inline_partials Lib_render example_env empty_registry
       ''{{~#*inline \"layout-nav\"}}Hi{{/inline~}}<p>Hello</p>''
     = (empty_registry, Inr ''{{~#*inline \"layout-nav\"}}Hi{{/inline~}}<p>Hello</p>'')
   \<and> extract_inline_partials Lib_render example_env empty_registry
       ''{{#*inline 'layout-nav'}}Hi{{/inline}}<p>Hello</p>''
     = (empty_registry, Inr ''{{#*inline 'layout-nav'}}Hi{{/inline}}<p>Hello</p>'')
   \<and> extract_inline_partials Part_000 example_env empty_registry
       ''{{~#*inline \"layout-nav\"}}Hi{{/inline~}}<p>Hello</p>''
     = (\<lparr>partials = [(''layout-nav'', Compiled [Text (''Hi'' @ [CHR 0x0A])])], helpers = []\<rparr>,
        Inr ''<p>Hello</p>'')
   \<and> extract_inline_partials Part_000 example_env empty_registry
       ''{{#*inline 'layout-nav'}}Hi{{/inline}}<p>Hello</p>''
     = (\<lparr>partials = [(''layout-nav'', Compiled [Text (''Hi'' @ [CHR 0x0A])])], helpers = []\<rparr>,
        Inr ''<p>Hello</p>'')
   \<and> extract_inline_partials Lib_render example_env empty_registry
       ''{{#*inline \"layout-nav'}}Hi{{/inline}}<p>Hello</p>''
     = (empty_registry, Inr ''{{#*inline \"layout-nav'}}Hi{{/inline}}<p>Hello</p>'')
   \<and> extract_inline_partials Part_000 example_env empty_registry
       ''{{#*inline \"layout-nav'}}Hi{{/inline}}<p>Hello</p>''
     = (empty_registry, Inr ''{{#*inline \"layout-nav'}}Hi{{/inline}}<p>Hello</p>'')"
  by code_simp


text \<open>
  Claim C5.  A declaration stands in a comment and, word for word, after it.  Both
  revisions find the second one only, and then remove its text from the body with
  \<^verbatim>\<open>bodyText.replace\<close>, which replaces the first occurrence: the declaration in the
  comment is stripped and the one outside the comment stays in the body.
\<close>

theorem commented_copy_is_stripped:
  "extract_inline_partials Lib_render example_env empty_registry
       ''{{!--{{#*inline \"layout-a\"}}X{{/inline}}--}}{{#*inline \"layout-a\"}}X{{/inline}}''
     = (\<lparr>partials = [(''layout-a'', Compiled [Text (''X'' @ [CHR 0x0A])])], helpers = []\<rparr>,
        Inr ''{{!----}}{{#*inline \"layout-a\"}}X{{/inline}}'')
   \<and> extract_inline_partials Part_000 example_env empty_registry
       ''{{!--{{#*inline \"layout-a\"}}X{{/inline}}--}}{{#*inline \"layout-a\"}}X{{/inline}}''
     = (\<lparr>partials = [(''layout-a'', Compiled [Text (''X'' @ [CHR 0x0A])])], helpers = []\<rparr>,
        Inr ''{{!----}}{{#*inline \"layout-a\"}}X{{/inline}}'')"
  by code_simp

text \<open>
  Claim C10.  Two declarations of the same name, and a comment before them that holds
  the text of the second.  The registry ends with the body of the second declaration,
  but its span is not removed from the body: \<^verbatim>\<open>bodyText.replace\<close> removes the copy in
  the comment.
\<close>

theorem last_declaration_is_left_in_body:
  "extract_inline_partials Lib_render example_env empty_registry
       ''{{!--{{#*inline \"layout-a\"}}2{{/inline}}--}}{{#*inline \"layout-a\"}}1{{/inline}}{{#*inline \"layout-a\"}}2{{/inline}}''
     = (\<lparr>partials = [(''layout-a'', Compiled [Text (''2'' @ [CHR 0x0A])])], helpers = []\<rparr>,
        Inr ''{{!----}}{{#*inline \"layout-a\"}}2{{/inline}}'')
   \<and> extract_inline_partials Part_000 example_env empty_registry
       ''{{!--{{#*inline \"layout-a\"}}2{{/inline}}--}}{{#*inline \"layout-a\"}}1{{/inline}}{{#*inline \"layout-a\"}}2{{/inline}}''
     = (\<lparr>partials = [(''layout-a'', Compiled [Text (''2'' @ [CHR 0x0A])])], helpers = []\<rparr>,
        Inr ''{{!----}}{{#*inline \"layout-a\"}}2{{/inline}}'')"
  by code_simp

end
